theory Spec2Isabelle
  imports Main
begin

section \<open>JavaScript values\<close>

text \<open>
  The client moves JSON documents between the caller and the remote service. A value is
  one of JavaScript's JSON-like values. \<open>JUndefined\<close> is JavaScript's \<open>undefined\<close>:
  the value of an omitted argument and of a property that an object does not have.
  Numbers are modelled as integers (identifiers, offsets, limits and status codes), and a
  string is the list of the bytes of its UTF-8 encoding. An object is the list of its
  properties in insertion order; the keys of an object are pairwise distinct.
\<close>

datatype json =
    JUndefined
  | JNull
  | JBool bool
  | JNum int
  | JStr string
  | JArr "json list"
  | JObj "(string \<times> json) list"

text \<open>
  Reading the property \<open>k\<close> of a value that is neither \<open>null\<close> nor \<open>undefined\<close>, as the
  destructuring patterns \<open>const {k} = v\<close> of the source do. The source reads only the
  properties \<open>sync_product\<close>, \<open>sync_variants\<close>, \<open>items\<close> and \<open>success\<close>, none of which a
  primitive, an array or \<open>Object.prototype\<close> has.
\<close>

fun get_prop :: "json \<Rightarrow> string \<Rightarrow> json" where
  "get_prop (JObj kvs) k = (case map_of kvs k of Some v \<Rightarrow> v | None \<Rightarrow> JUndefined)"
| "get_prop _ k = JUndefined"

text \<open>Destructuring \<open>null\<close> or \<open>undefined\<close> throws a \<open>TypeError\<close>.\<close>

fun nullish :: "json \<Rightarrow> bool" where
  "nullish JUndefined = True"
| "nullish JNull = True"
| "nullish _ = False"

subsection \<open>Numbers and booleans in string concatenation\<close>

definition digit_char :: "nat \<Rightarrow> char" where
  "digit_char d = ''0123456789'' ! d"

fun dec_digits :: "nat \<Rightarrow> string" where
  "dec_digits n = (if n < 10 then [digit_char n] else dec_digits (n div 10) @ [digit_char (n mod 10)])"

declare dec_digits.simps [simp del]

text \<open>
  \<open>"" + n\<close> for an integer \<open>n\<close>: the decimal numeral, with a minus sign below zero
  (JavaScript prints integers of magnitude below \<open>10^21\<close> this way).
\<close>

definition num_to_string :: "int \<Rightarrow> string" where
  "num_to_string n = (if n < 0 then CHR ''-'' # dec_digits (nat (- n)) else dec_digits (nat n))"

definition bool_to_string :: "bool \<Rightarrow> string" where
  "bool_to_string b = (if b then ''true'' else ''false'')"

text \<open>An identifier argument of type \<open>number | string\<close>.\<close>

datatype ident = IdNum int | IdStr string

text \<open>\<open>"" + id\<close>: a number is printed, a string is taken as it is.\<close>

fun ident_to_string :: "ident \<Rightarrow> string" where
  "ident_to_string (IdNum n) = num_to_string n"
| "ident_to_string (IdStr s) = s"

text \<open>\<open>"" + id\<close> for an optional number: \<open>undefined\<close> prints as the word itself.\<close>

fun opt_num_to_string :: "int option \<Rightarrow> string" where
  "opt_num_to_string None = ''undefined''"
| "opt_num_to_string (Some n) = num_to_string n"

text \<open>
  \<open>"" + {id}\<close>: the operand is an object literal with the single property \<open>id\<close>, and
  every plain object prints as \<open>[object Object]\<close>, whatever it holds.
\<close>

definition object_to_string :: "(string \<times> json) list \<Rightarrow> string" where
  "object_to_string kvs = ''[object Object]''"

fun ident_to_json :: "ident \<Rightarrow> json" where
  "ident_to_json (IdNum n) = JNum n"
| "ident_to_json (IdStr s) = JStr s"

subsection \<open>\<open>JSON.stringify\<close>\<close>

definition hex_lower :: "nat \<Rightarrow> char" where
  "hex_lower d = ''0123456789abcdef'' ! d"

definition hex_upper :: "nat \<Rightarrow> char" where
  "hex_upper d = ''0123456789ABCDEF'' ! d"

text \<open>
  One byte of a string inside a JSON string literal: the quote and the backslash are
  escaped, the control characters below \<open>0x20\<close> have a short escape or \<open>\u00XX\<close>.
\<close>

definition json_escape_char :: "char \<Rightarrow> string" where
  "json_escape_char c =
     (let n = (of_char c :: nat) in
      if n = 34 then [CHR 0x5C, CHR 0x22]
      else if n = 92 then [CHR 0x5C, CHR 0x5C]
      else if n = 8 then [CHR 0x5C, CHR ''b'']
      else if n = 9 then [CHR 0x5C, CHR ''t'']
      else if n = 10 then [CHR 0x5C, CHR ''n'']
      else if n = 12 then [CHR 0x5C, CHR ''f'']
      else if n = 13 then [CHR 0x5C, CHR ''r'']
      else if n < 32 then [CHR 0x5C, CHR ''u'', CHR ''0'', CHR ''0'', hex_lower (n div 16), hex_lower (n mod 16)]
      else [c])"

definition json_quote :: "string \<Rightarrow> string" where
  "json_quote s = [CHR 0x22] @ concat (map json_escape_char s) @ [CHR 0x22]"

fun join_with :: "string \<Rightarrow> string list \<Rightarrow> string" where
  "join_with sep [] = []"
| "join_with sep [x] = x"
| "join_with sep (x # y # ys) = x @ sep @ join_with sep (y # ys)"

text \<open>
  \<open>JSON.stringify v\<close>. The result is \<open>undefined\<close> (here \<open>None\<close>) for \<open>undefined\<close>; an
  \<open>undefined\<close> element of an array is written \<open>null\<close>, and a property whose value is
  \<open>undefined\<close> is left out.
\<close>

fun stringify :: "json \<Rightarrow> string option"
  and stringify_elems :: "json list \<Rightarrow> string list"
  and stringify_props :: "(string \<times> json) list \<Rightarrow> string list" where
  "stringify JUndefined = None"
| "stringify JNull = Some ''null''"
| "stringify (JBool b) = Some (bool_to_string b)"
| "stringify (JNum n) = Some (num_to_string n)"
| "stringify (JStr s) = Some (json_quote s)"
| "stringify (JArr vs) = Some (''['' @ join_with '','' (stringify_elems vs) @ '']'')"
| "stringify (JObj kvs) = Some (''{'' @ join_with '','' (stringify_props kvs) @ ''}'')"
| "stringify_elems [] = []"
| "stringify_elems (v # vs) =
     (case stringify v of None \<Rightarrow> ''null'' | Some s \<Rightarrow> s) # stringify_elems vs"
| "stringify_props [] = []"
| "stringify_props ((k, v) # kvs) =
     (case stringify v of
        None \<Rightarrow> stringify_props kvs
      | Some s \<Rightarrow> (json_quote k @ '':'' @ s) # stringify_props kvs)"

subsection \<open>\<open>URLSearchParams\<close>\<close>

text \<open>
  \<open>URLSearchParams.toString\<close> writes the pairs as \<open>name=value\<close> joined by \<open>&\<close>, each
  name and value percent-encoded byte by byte: letters, digits and \<open>* - . _\<close> stay, a
  space becomes \<open>+\<close>, and every other byte becomes \<open>%\<close> and two upper-case hex digits.
\<close>

definition form_unreserved :: "nat \<Rightarrow> bool" where
  "form_unreserved n =
     (n = 42 \<or> n = 45 \<or> n = 46 \<or> n = 95 \<or> (48 \<le> n \<and> n \<le> 57)
      \<or> (65 \<le> n \<and> n \<le> 90) \<or> (97 \<le> n \<and> n \<le> 122))"

definition form_encode_char :: "char \<Rightarrow> string" where
  "form_encode_char c =
     (let n = (of_char c :: nat) in
      if form_unreserved n then [c]
      else if n = 32 then ''+''
      else [CHR ''%'', hex_upper (n div 16), hex_upper (n mod 16)])"

definition form_encode :: "string \<Rightarrow> string" where
  "form_encode s = concat (map form_encode_char s)"

definition params_to_string :: "(string \<times> string) list \<Rightarrow> string" where
  "params_to_string ps =
     join_with ''&'' (map (\<lambda>(k, v). form_encode k @ ''='' @ form_encode v) ps)"

text \<open>
  \<open>x && params.append(name, x)\<close>: the pair is appended unless \<open>x\<close> is falsy, that is
  \<open>undefined\<close> or the empty string.
\<close>

fun append_if_truthy :: "string \<Rightarrow> string option \<Rightarrow> (string \<times> string) list \<Rightarrow> (string \<times> string) list" where
  "append_if_truthy name None ps = ps"
| "append_if_truthy name (Some x) ps = (if x = [] then ps else ps @ [(name, x)])"

section \<open>Client, requests and the remote service\<close>

text \<open>
  The configuration of an API object: the fields \<open>origin\<close> and \<open>headers\<close> of
  \<open>PrintfulAcountClient\<close>, and of \<open>MockupGeneratorAPI\<close>, whose constructor receives both.
\<close>

record client =
  origin :: string
  headers :: "(string \<times> string) list"

text \<open>
  The constructor of \<open>PrintfulAcountClient\<close>: \<open>auth || ""\<close> is the empty string when the
  token is \<open>undefined\<close> (or empty).
\<close>

definition new_client :: "string option \<Rightarrow> client" where
  "new_client auth =
     \<lparr>origin = ''https://api.printful.com'',
      headers = [(''Authorization'', ''Bearer '' @ (case auth of None \<Rightarrow> [] | Some t \<Rightarrow> t))]\<rparr>"

text \<open>
  The arguments of one \<open>fetch(url, init)\<close>; \<open>http_method = None\<close> when \<open>init\<close> names no
  method (a GET), \<open>body = None\<close> when it has no body.
\<close>

record request =
  url :: string
  http_method :: "string option"
  req_headers :: "(string \<times> string) list"
  body :: "string option"

text \<open>
  The envelope the remote service answers with, as the source destructures it. A field
  the body does not have is \<open>undefined\<close>. The status code is an integer, or \<open>None\<close> when
  the body has no code; a code of another kind (a string, say) is outside this model.
\<close>

record envelope =
  code :: "int option"
  result :: json
  error :: json
  paging :: json

text \<open>
  What one request comes to: \<open>fetch\<close> rejects (network fault, timeout), the body is not
  JSON and \<open>response.json()\<close> rejects, the body is the JSON \<open>null\<close>, or the body is read
  as an envelope.
\<close>

datatype reply = NetworkError | MalformedBody | NullBody | Body envelope

text \<open>The exceptions that leave a method.\<close>

datatype fault = TransportFault | JsonParseFault | TypeError

text \<open>
  The state a method runs in: the object it is called on (\<open>this\<close>), the remote service,
  and the requests sent so far.
\<close>

record world =
  self :: client
  remote :: "request \<Rightarrow> reply"
  sent :: "request list"

text \<open>\<open>code >= 400\<close>; the comparison is false when \<open>code\<close> is \<open>undefined\<close>.\<close>

definition code_ge_400 :: "int option \<Rightarrow> bool" where
  "code_ge_400 c = (case c of None \<Rightarrow> False | Some n \<Rightarrow> n \<ge> 400)"

text \<open>A parameter with a default value: \<open>undefined\<close> takes the default.\<close>

definition default_to :: "'a \<Rightarrow> 'a option \<Rightarrow> 'a" where
  "default_to d x = (case x of None \<Rightarrow> d | Some v \<Rightarrow> v)"

text \<open>
  The three lines every method shares,
  \<^verbatim>\<open>const response = await fetch(url, init);\<close>
  \<^verbatim>\<open>const data = await response.json();\<close>
  \<^verbatim>\<open>const {result, code, error} = await data;\<close>
  followed by the rest of the method body \<open>k\<close>. Nothing is caught: a rejection of
  \<open>fetch\<close> or of \<open>response.json()\<close>, and the \<open>TypeError\<close> of destructuring \<open>null\<close>, leave
  the method.
\<close>

definition fetch_json :: "request \<Rightarrow> (envelope \<Rightarrow> fault + json) \<Rightarrow> world \<Rightarrow> (fault + json) \<times> world" where
  "fetch_json req k w =
     ((case remote w req of
         NetworkError \<Rightarrow> Inl TransportFault
       | MalformedBody \<Rightarrow> Inl JsonParseFault
       | NullBody \<Rightarrow> Inl TypeError
       | Body e \<Rightarrow> k e),
      w\<lparr>sent := sent w @ [req]\<rparr>)"

section \<open>Products API\<close>

definition getSyncProducts :: "int option \<Rightarrow> int option \<Rightarrow> string option \<Rightarrow> world \<Rightarrow> (fault + json) \<times> world" where
  "getSyncProducts offset_arg limit_arg category_arg w =
     (let offset = default_to 0 offset_arg;
          limit = default_to 20 limit_arg;
          category_id = default_to [] category_arg
      in fetch_json
           \<lparr>url = origin (self w) @ ''/store/products?'' @ ''offset='' @ num_to_string offset
                   @ ''&limit='' @ num_to_string limit
                   @ (if category_id \<noteq> [] then ''&category_id='' @ category_id else []),
            http_method = None, req_headers = headers (self w), body = None\<rparr>
           (\<lambda>e. if code_ge_400 (code e)
                then Inr (JObj [(''products'', JArr []),
                                (''paging'', JObj [(''offset'', JNum offset), (''limit'', JNum limit)]),
                                (''error'', error e)])
                else Inr (JObj [(''products'', result e), (''paging'', paging e), (''error'', JObj [])]))
           w)"

definition createSyncProduct :: "json \<Rightarrow> json \<Rightarrow> world \<Rightarrow> (fault + json) \<times> world" where
  "createSyncProduct sync_product sync_variants w =
     fetch_json
       \<lparr>url = origin (self w) @ ''/store/products'',
        http_method = Some ''POST'', req_headers = headers (self w),
        body = stringify (JObj [(''sync_product'', sync_product), (''sync_variants'', sync_variants)])\<rparr>
       (\<lambda>e. if code_ge_400 (code e)
            then Inr (JObj [(''product'', JObj []), (''error'', error e)])
            else Inr (JObj [(''product'', result e), (''error'', JObj [])]))
       w"

definition getSyncProduct :: "ident \<Rightarrow> world \<Rightarrow> (fault + json) \<times> world" where
  "getSyncProduct id' w =
     fetch_json
       \<lparr>url = origin (self w) @ ''/store/products/'' @ ident_to_string id',
        http_method = None, req_headers = headers (self w), body = None\<rparr>
       (\<lambda>e. if code_ge_400 (code e)
            then Inr (JObj [(''sync_product'', JObj []), (''sync_variants'', JArr []), (''error'', error e)])
            else if nullish (result e) then Inl TypeError
            else Inr (JObj [(''sync_product'', get_prop (result e) ''sync_product''),
                            (''sync_variants'', get_prop (result e) ''sync_variants''),
                            (''error'', JObj [])]))
       w"

definition deleteSyncProduct :: "ident \<Rightarrow> world \<Rightarrow> (fault + json) \<times> world" where
  "deleteSyncProduct id' w =
     fetch_json
       \<lparr>url = origin (self w) @ ''/store/products/'' @ ident_to_string id',
        http_method = Some ''DELETE'', req_headers = headers (self w), body = None\<rparr>
       (\<lambda>e. if code_ge_400 (code e)
            then Inr (JObj [(''result'', JArr []), (''error'', error e)])
            else Inr (JObj [(''result'', result e), (''error'', JObj [])]))
       w"

definition modifySyncProduct :: "ident \<Rightarrow> json \<Rightarrow> json \<Rightarrow> world \<Rightarrow> (fault + json) \<times> world" where
  "modifySyncProduct id' sync_product sync_variants w =
     fetch_json
       \<lparr>url = origin (self w) @ ''/store/products/'' @ ident_to_string id',
        http_method = Some ''PUT'', req_headers = headers (self w),
        body = stringify (JObj [(''sync_product'', sync_product), (''sync_variants'', sync_variants)])\<rparr>
       (\<lambda>e. if code_ge_400 (code e)
            then Inr (JObj [(''product'', JObj []), (''error'', error e)])
            else Inr (JObj [(''product'', result e), (''error'', JObj [])]))
       w"

definition getSyncVariant :: "ident \<Rightarrow> world \<Rightarrow> (fault + json) \<times> world" where
  "getSyncVariant id' w =
     fetch_json
       \<lparr>url = origin (self w) @ ''/store/variants/'' @ ident_to_string id',
        http_method = None, req_headers = headers (self w), body = None\<rparr>
       (\<lambda>e. if code_ge_400 (code e)
            then Inr (JObj [(''variant'', JObj []), (''error'', error e)])
            else Inr (JObj [(''variant'', result e), (''error'', JObj [])]))
       w"

definition deleteSyncVariant :: "ident \<Rightarrow> world \<Rightarrow> (fault + json) \<times> world" where
  "deleteSyncVariant id' w =
     fetch_json
       \<lparr>url = origin (self w) @ ''/store/variants/'' @ ident_to_string id',
        http_method = Some ''DELETE'', req_headers = headers (self w), body = None\<rparr>
       (\<lambda>e. if code_ge_400 (code e)
            then Inr (JObj [(''result'', JArr []), (''error'', error e)])
            else Inr (JObj [(''result'', result e), (''error'', JObj [])]))
       w"

definition modifySyncVariant :: "ident \<Rightarrow> json \<Rightarrow> world \<Rightarrow> (fault + json) \<times> world" where
  "modifySyncVariant id' sync_variant w =
     fetch_json
       \<lparr>url = origin (self w) @ ''/store/variants/'' @ ident_to_string id',
        http_method = Some ''PUT'', req_headers = headers (self w),
        body = stringify sync_variant\<rparr>
       (\<lambda>e. if code_ge_400 (code e)
            then Inr (JObj [(''variant'', JObj []), (''error'', error e)])
            else Inr (JObj [(''variant'', result e), (''error'', JObj [])]))
       w"

text \<open>
  The path of \<open>createSyncVariant\<close> is built as
  \<^verbatim>\<open>this.origin+"/store/products/"+{id}+"/variants"\<close>:
  the middle operand is the object literal \<open>{id}\<close>, not \<open>id\<close>.
\<close>

definition createSyncVariant :: "ident \<Rightarrow> json \<Rightarrow> world \<Rightarrow> (fault + json) \<times> world" where
  "createSyncVariant id' sync_variant w =
     fetch_json
       \<lparr>url = origin (self w) @ ''/store/products/'' @ object_to_string [(''id'', ident_to_json id')]
               @ ''/variants'',
        http_method = Some ''POST'', req_headers = headers (self w),
        body = stringify sync_variant\<rparr>
       (\<lambda>e. if code_ge_400 (code e)
            then Inr (JObj [(''variant'', JObj []), (''error'', error e)])
            else Inr (JObj [(''variant'', result e), (''error'', JObj [])]))
       w"

section \<open>Product templates API\<close>

definition getProductTemplates :: "int option \<Rightarrow> int option \<Rightarrow> world \<Rightarrow> (fault + json) \<times> world" where
  "getProductTemplates offset_arg limit_arg w =
     (let offset = default_to 0 offset_arg;
          limit = default_to 20 limit_arg
      in fetch_json
           \<lparr>url = origin (self w) @ ''/product-templates'' @ ''?offset='' @ num_to_string offset
                   @ ''&limit='' @ num_to_string limit,
            http_method = None, req_headers = headers (self w), body = None\<rparr>
           (\<lambda>e. if code_ge_400 (code e)
                then Inr (JObj [(''templates'', JArr []),
                                (''paging'', JObj [(''offset'', JNum offset), (''limit'', JNum limit)]),
                                (''error'', error e)])
                else if nullish (result e) then Inl TypeError
                else Inr (JObj [(''templates'', get_prop (result e) ''items''),
                                (''paging'', paging e), (''error'', JObj [])]))
           w)"

definition getProductTemplate :: "ident \<Rightarrow> world \<Rightarrow> (fault + json) \<times> world" where
  "getProductTemplate id' w =
     fetch_json
       \<lparr>url = origin (self w) @ ''/product-templates/'' @ ident_to_string id',
        http_method = None, req_headers = headers (self w), body = None\<rparr>
       (\<lambda>e. if code_ge_400 (code e)
            then Inr (JObj [(''template'', JObj []), (''error'', error e)])
            else Inr (JObj [(''template'', result e), (''error'', JObj [])]))
       w"

definition deleteProductTemplate :: "ident \<Rightarrow> world \<Rightarrow> (fault + json) \<times> world" where
  "deleteProductTemplate id' w =
     fetch_json
       \<lparr>url = origin (self w) @ ''/product-templates/'' @ ident_to_string id',
        http_method = Some ''DELETE'', req_headers = headers (self w), body = None\<rparr>
       (\<lambda>e. if code_ge_400 (code e)
            then Inr (JObj [(''success'', JBool False), (''error'', error e)])
            else if nullish (result e) then Inl TypeError
            else Inr (JObj [(''success'', get_prop (result e) ''success''), (''error'', JObj [])]))
       w"

section \<open>Orders API\<close>

text \<open>The type \<open>OrderStatus\<close> is a string; \<open>getOrders\<close> always writes it into the query.\<close>

definition getOrders :: "int option \<Rightarrow> int option \<Rightarrow> string \<Rightarrow> world \<Rightarrow> (fault + json) \<times> world" where
  "getOrders offset_arg limit_arg status w =
     (let offset = default_to 0 offset_arg;
          limit = default_to 20 limit_arg
      in fetch_json
           \<lparr>url = origin (self w) @ ''/orders'' @ ''?offset='' @ num_to_string offset
                   @ ''&limit='' @ num_to_string limit @ ''&status='' @ status,
            http_method = None, req_headers = headers (self w), body = None\<rparr>
           (\<lambda>e. if code_ge_400 (code e)
                then Inr (JObj [(''orders'', JArr []),
                                (''paging'', JObj [(''offset'', JNum offset), (''limit'', JNum limit)]),
                                (''error'', error e)])
                else Inr (JObj [(''orders'', result e), (''paging'', paging e), (''error'', JObj [])]))
           w)"

text \<open>On success \<open>createOrder\<close> returns \<open>{order, error}\<close>: the envelope's own \<open>error\<close>.\<close>

definition createOrder :: "json \<Rightarrow> bool option \<Rightarrow> bool option \<Rightarrow> world \<Rightarrow> (fault + json) \<times> world" where
  "createOrder newOrder confirm_arg update_existing_arg w =
     (let confirm = default_to False confirm_arg;
          update_existing = default_to False update_existing_arg
      in fetch_json
           \<lparr>url = origin (self w) @ ''/orders'' @ ''?confirm='' @ bool_to_string confirm
                   @ ''&update_existing='' @ bool_to_string update_existing,
            http_method = Some ''POST'', req_headers = headers (self w),
            body = stringify newOrder\<rparr>
           (\<lambda>e. if code_ge_400 (code e)
                then Inr (JObj [(''order'', JObj []), (''error'', error e)])
                else Inr (JObj [(''order'', result e), (''error'', error e)]))
           w)"

section \<open>Mockup generator API\<close>

definition createMockupTask :: "int \<Rightarrow> json \<Rightarrow> world \<Rightarrow> (fault + json) \<times> world" where
  "createMockupTask id' mockup_task w =
     fetch_json
       \<lparr>url = origin (self w) @ ''/mockup-generator/create-task/'' @ num_to_string id',
        http_method = Some ''POST'', req_headers = headers (self w),
        body = stringify mockup_task\<rparr>
       (\<lambda>e. if code_ge_400 (code e)
            then Inr (JObj [(''task'', JNull), (''error'', error e)])
            else Inr (JObj [(''task'', result e), (''error'', JNull)]))
       w"

definition getProductVariantPrintFiles :: "int option \<Rightarrow> string option \<Rightarrow> string option \<Rightarrow> world \<Rightarrow> (fault + json) \<times> world" where
  "getProductVariantPrintFiles id' orientation technique w =
     (let params = append_if_truthy ''technique'' technique
                     (append_if_truthy ''orientation'' orientation [])
      in fetch_json
           \<lparr>url = origin (self w) @ ''/mockup-generator/printfiles/'' @ opt_num_to_string id'
                   @ ''?'' @ params_to_string params,
            http_method = None, req_headers = headers (self w), body = None\<rparr>
           (\<lambda>e. if code_ge_400 (code e)
                then Inr (JObj [(''files'', JNull), (''error'', error e)])
                else Inr (JObj [(''files'', result e), (''error'', JNull)]))
           w)"

definition getMockupTaskResult :: "string \<Rightarrow> world \<Rightarrow> (fault + json) \<times> world" where
  "getMockupTaskResult task_key w =
     (let params = [(''task_key'', task_key)]
      in fetch_json
           \<lparr>url = origin (self w) @ ''/mockup-generator/task?'' @ params_to_string params,
            http_method = None, req_headers = headers (self w), body = None\<rparr>
           (\<lambda>e. if code_ge_400 (code e)
                then Inr (JObj [(''task'', JNull), (''error'', error e)])
                else Inr (JObj [(''task'', result e), (''error'', JNull)]))
           w)"

definition getLayoutTemplates :: "int \<Rightarrow> string option \<Rightarrow> string option \<Rightarrow> world \<Rightarrow> (fault + json) \<times> world" where
  "getLayoutTemplates id' orientation technique w =
     (let params = append_if_truthy ''technique'' technique
                     (append_if_truthy ''orientation'' orientation [])
      in fetch_json
           \<lparr>url = origin (self w) @ ''/mockup-generator/templates/'' @ num_to_string id'
                   @ ''?'' @ params_to_string params,
            http_method = None, req_headers = headers (self w), body = None\<rparr>
           (\<lambda>e. if code_ge_400 (code e)
                then Inr (JObj [(''templates'', JNull), (''error'', error e)])
                else Inr (JObj [(''templates'', result e), (''error'', JNull)]))
           w)"

section \<open>The implemented methods as one table\<close>

text \<open>
  One constructor for each implemented method with its arguments, and the dispatch to
  the method; it serves to state a property of every method at once. The methods of the
  source with an empty body send nothing and return nothing, and are left out.
\<close>

datatype call =
    GetSyncProducts "int option" "int option" "string option"
  | CreateSyncProduct json json
  | GetSyncProduct ident
  | DeleteSyncProduct ident
  | ModifySyncProduct ident json json
  | GetSyncVariant ident
  | DeleteSyncVariant ident
  | ModifySyncVariant ident json
  | CreateSyncVariant ident json
  | GetProductTemplates "int option" "int option"
  | GetProductTemplate ident
  | DeleteProductTemplate ident
  | GetOrders "int option" "int option" string
  | CreateOrder json "bool option" "bool option"
  | CreateMockupTask int json
  | GetProductVariantPrintFiles "int option" "string option" "string option"
  | GetMockupTaskResult string
  | GetLayoutTemplates int "string option" "string option"

fun invoke :: "call \<Rightarrow> world \<Rightarrow> (fault + json) \<times> world" where
  "invoke (GetSyncProducts offset limit category_id) w = getSyncProducts offset limit category_id w"
| "invoke (CreateSyncProduct sync_product sync_variants) w = createSyncProduct sync_product sync_variants w"
| "invoke (GetSyncProduct id') w = getSyncProduct id' w"
| "invoke (DeleteSyncProduct id') w = deleteSyncProduct id' w"
| "invoke (ModifySyncProduct id' sync_product sync_variants) w = modifySyncProduct id' sync_product sync_variants w"
| "invoke (GetSyncVariant id') w = getSyncVariant id' w"
| "invoke (DeleteSyncVariant id') w = deleteSyncVariant id' w"
| "invoke (ModifySyncVariant id' sync_variant) w = modifySyncVariant id' sync_variant w"
| "invoke (CreateSyncVariant id' sync_variant) w = createSyncVariant id' sync_variant w"
| "invoke (GetProductTemplates offset limit) w = getProductTemplates offset limit w"
| "invoke (GetProductTemplate id') w = getProductTemplate id' w"
| "invoke (DeleteProductTemplate id') w = deleteProductTemplate id' w"
| "invoke (GetOrders offset limit status) w = getOrders offset limit status w"
| "invoke (CreateOrder newOrder confirm update_existing) w = createOrder newOrder confirm update_existing w"
| "invoke (CreateMockupTask id' mockup_task) w = createMockupTask id' mockup_task w"
| "invoke (GetProductVariantPrintFiles id' orientation technique) w = getProductVariantPrintFiles id' orientation technique w"
| "invoke (GetMockupTaskResult task_key) w = getMockupTaskResult task_key w"
| "invoke (GetLayoutTemplates id' orientation technique) w = getLayoutTemplates id' orientation technique w"

text \<open>A mock of the remote service that answers every request with the envelope \<open>e\<close>.\<close>

definition mock :: "client \<Rightarrow> envelope \<Rightarrow> world" where
  "mock c e = \<lparr>self = c, remote = (\<lambda>req. Body e), sent = []\<rparr>"

section \<open>Observations\<close>

text \<open>The request a call sends: the last entry of the log after the call.\<close>

definition issued :: "call \<Rightarrow> world \<Rightarrow> request" where
  "issued c w = last (sent (snd (invoke c w)))"

text \<open>A sequence of calls on one instance, one after the other.\<close>

fun invoke_all :: "call list \<Rightarrow> world \<Rightarrow> world" where
  "invoke_all [] w = w"
| "invoke_all (c # cs) w = invoke_all cs (snd (invoke c w))"

text \<open>The methods whose \<open>fetch\<close> names no method: the reads, sent as GET.\<close>

fun is_read :: "call \<Rightarrow> bool" where
  "is_read (GetSyncProducts offset limit category_id) = True"
| "is_read (GetSyncProduct id') = True"
| "is_read (GetSyncVariant id') = True"
| "is_read (GetProductTemplates offset limit) = True"
| "is_read (GetProductTemplate id') = True"
| "is_read (GetOrders offset limit status) = True"
| "is_read (GetProductVariantPrintFiles id' orientation technique) = True"
| "is_read (GetMockupTaskResult task_key) = True"
| "is_read (GetLayoutTemplates id' orientation technique) = True"
| "is_read _ = False"

text \<open>
  The values the specification lists as the empty payload of a failed call: the empty
  list, the empty object and \<open>null\<close>.
\<close>

definition listed_empty :: "json \<Rightarrow> bool" where
  "listed_empty v = (v = JArr [] \<or> v = JObj [] \<or> v = JNull)"

text \<open>
  The payload fields of a returned object: all but \<open>error\<close> and \<open>paging\<close>. A call that
  throws returns no field.
\<close>

fun payload_fields :: "fault + json \<Rightarrow> (string \<times> json) list" where
  "payload_fields (Inr (JObj kvs)) = filter (\<lambda>(k, v). k \<noteq> ''error'' \<and> k \<noteq> ''paging'') kvs"
| "payload_fields _ = []"

text \<open>The field \<open>k\<close> of the returned object, if the call returns one.\<close>

fun returned_field :: "fault + json \<Rightarrow> string \<Rightarrow> json option" where
  "returned_field (Inr (JObj kvs)) k = map_of kvs k"
| "returned_field _ k = None"

lemmas method_defs =
  getSyncProducts_def createSyncProduct_def getSyncProduct_def deleteSyncProduct_def
  modifySyncProduct_def getSyncVariant_def deleteSyncVariant_def modifySyncVariant_def
  createSyncVariant_def getProductTemplates_def getProductTemplate_def
  deleteProductTemplate_def getOrders_def createOrder_def createMockupTask_def
  getProductVariantPrintFiles_def getMockupTaskResult_def getLayoutTemplates_def

section \<open>Every call sends one request and leaves the instance alone\<close>

lemma invoke_sends_one: "sent (snd (invoke c w)) = sent w @ [issued c w]"
  by (cases c) (simp_all add: issued_def method_defs fetch_json_def Let_def)

lemma invoke_keeps_self: "self (snd (invoke c w)) = self w"
  by (cases c) (simp_all add: method_defs fetch_json_def Let_def)

lemma invoke_keeps_remote: "remote (snd (invoke c w)) = remote w"
  by (cases c) (simp_all add: method_defs fetch_json_def Let_def)

lemma issued_headers: "req_headers (issued c w) = headers (self w)"
  by (cases c) (simp_all add: issued_def method_defs fetch_json_def Let_def)

lemma is_read_no_method: "is_read c = (http_method (issued c w) = None)"
  by (cases c) (simp_all add: issued_def method_defs fetch_json_def Let_def)

lemma issued_depends_on_self: "self w' = self w \<Longrightarrow> issued c w' = issued c w"
  by (cases c) (simp_all add: issued_def method_defs fetch_json_def Let_def)

lemma invoke_all_keeps_self: "self (invoke_all cs w) = self w"
  by (induction cs arbitrary: w) (simp_all add: invoke_keeps_self)

lemma invoke_all_keeps_remote: "remote (invoke_all cs w) = remote w"
  by (induction cs arbitrary: w) (simp_all add: invoke_keeps_remote)

lemma invoke_all_length: "length (sent (invoke_all cs w)) = length (sent w) + length cs"
  by (induction cs arbitrary: w) (simp_all add: invoke_sends_one)

lemma invoke_all_headers:
  "list_all (\<lambda>req. req_headers req = headers (self w)) (sent w) \<Longrightarrow>
   list_all (\<lambda>req. req_headers req = headers (self w)) (sent (invoke_all cs w))"
proof (induction cs arbitrary: w)
  case Nil
  then show ?case by simp
next
  case (Cons c cs)
  let ?w = "snd (invoke c w)"
  have "list_all (\<lambda>req. req_headers req = headers (self ?w)) (sent ?w)"
    using Cons.prems by (simp add: invoke_sends_one invoke_keeps_self issued_headers)
  from Cons.IH [OF this] show ?case
    by (simp add: invoke_keeps_self)
qed

section \<open>Successful calls\<close>

text \<open>
  The first scenario of the specification: \<open>getSyncProducts(0, 20)\<close> against a mock that
  answers \<open>{code:200, result:[{id:1}], paging:{offset:0,limit:20,total:1}}\<close>.
\<close>

lemma getSyncProducts_scenario:
  "fst (getSyncProducts (Some 0) (Some 20) None
          (mock cl \<lparr>code = Some 200, result = JArr [JObj [(''id'', JNum 1)]], error = JUndefined,
                    paging = JObj [(''offset'', JNum 0), (''limit'', JNum 20), (''total'', JNum 1)]\<rparr>))
   = Inr (JObj [(''products'', JArr [JObj [(''id'', JNum 1)]]),
                (''paging'', JObj [(''offset'', JNum 0), (''limit'', JNum 20), (''total'', JNum 1)]),
                (''error'', JObj [])])"
  by (simp add: getSyncProducts_def fetch_json_def mock_def code_ge_400_def default_to_def)

text \<open>
  With a code below 400, every method but \<open>createOrder\<close> returns \<open>{}\<close> or \<open>null\<close> as the
  error, unless it throws: the three methods that read inside \<open>result\<close> throw a
  \<open>TypeError\<close> when \<open>result\<close> is \<open>null\<close> or missing.
\<close>

lemma success_error_empty_but_createOrder:
  assumes "code e = Some n" and "n < 400" and "\<forall>order confirm upd. c \<noteq> CreateOrder order confirm upd"
  shows "(nullish (result e) \<and> fst (invoke c (mock cl e)) = Inl TypeError)
       \<or> returned_field (fst (invoke c (mock cl e))) ''error'' = Some (JObj [])
       \<or> returned_field (fst (invoke c (mock cl e))) ''error'' = Some JNull"
  using assms
  by (cases c) (auto simp add: method_defs fetch_json_def Let_def mock_def code_ge_400_def)

text \<open>
  With a code below 400 and a \<open>result\<close> that is neither \<open>null\<close> nor missing, every method
  returns an object whose payload fields hold \<open>result\<close> itself or the property of
  \<open>result\<close> the method reads.
\<close>

lemma success_payload_from_result:
  assumes "code e = Some n" and "n < 400" and "\<not> nullish (result e)"
  shows "\<exists>kvs. fst (invoke c (mock cl e)) = Inr (JObj kvs)
           \<and> payload_fields (Inr (JObj kvs)) \<noteq> []
           \<and> (\<forall>(k, v) \<in> set (payload_fields (Inr (JObj kvs))).
                 v = result e \<or> v = get_prop (result e) k
                 \<or> (k = ''templates'' \<and> v = get_prop (result e) ''items''))"
  using assms
  by (cases c) (auto simp add: method_defs fetch_json_def Let_def mock_def code_ge_400_def)

text \<open>
  C1. On a successful envelope every method should return an empty error. \<open>createOrder\<close>
  does not: its last line returns \<open>{order, error}\<close>, so the error of the envelope comes
  back unchanged, here a non-empty object although the code is 200.
\<close>

theorem createOrder_success_returns_envelope_error:
  "fst (createOrder (JObj [(''external_id'', JStr ''o-1'')]) (Some True) (Some False)
          (mock (new_client (Some ''tok''))
             \<lparr>code = Some 200, result = JObj [(''id'', JNum 1)],
              error = JObj [(''message'', JStr ''warning'')], paging = JUndefined\<rparr>))
   = Inr (JObj [(''order'', JObj [(''id'', JNum 1)]),
                (''error'', JObj [(''message'', JStr ''warning'')])])"
  by (simp add: createOrder_def fetch_json_def mock_def code_ge_400_def default_to_def)

section \<open>Failed calls\<close>

text \<open>
  C2, as stated: with a code of 400 or more the payload is \<open>[]\<close>, \<open>{}\<close> or \<open>null\<close>.
  \<open>deleteProductTemplate\<close> returns \<open>success: false\<close>, which is none of the three.
\<close>

theorem deleteProductTemplate_failure_payload_false:
  "payload_fields (fst (deleteProductTemplate (IdNum 1)
       (mock (new_client None)
          \<lparr>code = Some 404, result = JUndefined,
           error = JObj [(''message'', JStr ''not found'')], paging = JUndefined\<rparr>)))
   = [(''success'', JBool False)]
   \<and> \<not> listed_empty (JBool False)"
  by (simp add: deleteProductTemplate_def fetch_json_def mock_def code_ge_400_def listed_empty_def)

text \<open>
  C2, amended. With a code of 400 or more every method returns an object whose \<open>error\<close>
  is the error of the envelope and whose payload fields are the fixed empty values of
  that method: \<open>[]\<close> for \<open>products\<close>, \<open>sync_variants\<close>, \<open>orders\<close>, the \<open>templates\<close> of
  \<open>getProductTemplates\<close> and the \<open>result\<close> of the two delete methods of the products API;
  \<open>{}\<close> for \<open>product\<close>, \<open>sync_product\<close>, \<open>variant\<close>, \<open>template\<close> and \<open>order\<close>; \<open>null\<close> for
  \<open>task\<close>, \<open>files\<close> and the \<open>templates\<close> of \<open>getLayoutTemplates\<close>; and \<open>false\<close> for the
  \<open>success\<close> flag of \<open>deleteProductTemplate\<close>. In particular \<open>getSyncProduct(999)\<close>
  against \<open>{code:404, error:{message:"not found"}}\<close> returns
  \<open>{sync_product:{}, sync_variants:[], error:{message:"not found"}}\<close>.
\<close>

theorem failure_shape:
  "(code e = Some n \<and> 400 \<le> n \<longrightarrow>
      (\<exists>kvs. fst (invoke c (mock cl e)) = Inr (JObj kvs)
         \<and> map_of kvs ''error'' = Some (error e)
         \<and> payload_fields (fst (invoke c (mock cl e))) \<noteq> []
         \<and> (\<forall>(k, v) \<in> set (payload_fields (fst (invoke c (mock cl e)))).
               listed_empty v \<or> (v = JBool False \<and> (\<exists>i. c = DeleteProductTemplate i))))
      \<and> payload_fields (fst (getSyncProducts offset limit category_id (mock cl e)))
          = [(''products'', JArr [])]
      \<and> payload_fields (fst (createSyncProduct sync_product sync_variants (mock cl e)))
          = [(''product'', JObj [])]
      \<and> payload_fields (fst (getSyncProduct pid (mock cl e)))
          = [(''sync_product'', JObj []), (''sync_variants'', JArr [])]
      \<and> payload_fields (fst (deleteSyncProduct pid (mock cl e)))
          = [(''result'', JArr [])]
      \<and> payload_fields (fst (modifySyncProduct pid sync_product sync_variants (mock cl e)))
          = [(''product'', JObj [])]
      \<and> payload_fields (fst (getSyncVariant vid (mock cl e)))
          = [(''variant'', JObj [])]
      \<and> payload_fields (fst (deleteSyncVariant vid (mock cl e)))
          = [(''result'', JArr [])]
      \<and> payload_fields (fst (modifySyncVariant vid sync_variant (mock cl e)))
          = [(''variant'', JObj [])]
      \<and> payload_fields (fst (createSyncVariant pid sync_variant (mock cl e)))
          = [(''variant'', JObj [])]
      \<and> payload_fields (fst (getProductTemplates offset limit (mock cl e)))
          = [(''templates'', JArr [])]
      \<and> payload_fields (fst (getProductTemplate tid (mock cl e)))
          = [(''template'', JObj [])]
      \<and> payload_fields (fst (deleteProductTemplate tid (mock cl e)))
          = [(''success'', JBool False)]
      \<and> payload_fields (fst (getOrders offset limit status (mock cl e)))
          = [(''orders'', JArr [])]
      \<and> payload_fields (fst (createOrder newOrder confirm update_existing (mock cl e)))
          = [(''order'', JObj [])]
      \<and> payload_fields (fst (createMockupTask mid mockup_task (mock cl e)))
          = [(''task'', JNull)]
      \<and> payload_fields (fst (getProductVariantPrintFiles oid orientation technique (mock cl e)))
          = [(''files'', JNull)]
      \<and> payload_fields (fst (getMockupTaskResult task_key (mock cl e)))
          = [(''task'', JNull)]
      \<and> payload_fields (fst (getLayoutTemplates mid orientation technique (mock cl e)))
          = [(''templates'', JNull)])
   \<and> fst (getSyncProduct (IdNum 999)
            (mock cl \<lparr>code = Some 404, result = JUndefined,
                      error = JObj [(''message'', JStr ''not found'')], paging = JUndefined\<rparr>))
     = Inr (JObj [(''sync_product'', JObj []), (''sync_variants'', JArr []),
                  (''error'', JObj [(''message'', JStr ''not found'')])])"
proof -
  have general: "code e = Some n \<and> 400 \<le> n \<longrightarrow>
      (\<exists>kvs. fst (invoke c (mock cl e)) = Inr (JObj kvs)
         \<and> map_of kvs ''error'' = Some (error e)
         \<and> payload_fields (fst (invoke c (mock cl e))) \<noteq> []
         \<and> (\<forall>(k, v) \<in> set (payload_fields (fst (invoke c (mock cl e)))).
               listed_empty v \<or> (v = JBool False \<and> (\<exists>i. c = DeleteProductTemplate i))))"
    by (cases c)
       (auto simp add: method_defs fetch_json_def Let_def mock_def code_ge_400_def listed_empty_def)
  have scenario: "fst (getSyncProduct (IdNum 999)
            (mock cl \<lparr>code = Some 404, result = JUndefined,
                      error = JObj [(''message'', JStr ''not found'')], paging = JUndefined\<rparr>))
     = Inr (JObj [(''sync_product'', JObj []), (''sync_variants'', JArr []),
                  (''error'', JObj [(''message'', JStr ''not found'')])])"
    by (simp add: getSyncProduct_def fetch_json_def mock_def code_ge_400_def)
  show ?thesis
    using general scenario
    by (simp add: method_defs fetch_json_def Let_def mock_def code_ge_400_def)
qed

theorem failure_shape_witness:
  "payload_fields (fst (getSyncProducts None None None
        (mock (new_client None)
           \<lparr>code = Some 429, result = JUndefined,
            error = JObj [(''message'', JStr ''slow down'')], paging = JUndefined\<rparr>)))
     = [(''products'', JArr [])]
   \<and> payload_fields (fst (getSyncVariant (IdNum 5)
        (mock (new_client None)
           \<lparr>code = Some 429, result = JUndefined,
            error = JObj [(''message'', JStr ''slow down'')], paging = JUndefined\<rparr>)))
     = [(''variant'', JObj [])]
   \<and> payload_fields (fst (getLayoutTemplates 71 None None
        (mock (new_client None)
           \<lparr>code = Some 429, result = JUndefined,
            error = JObj [(''message'', JStr ''slow down'')], paging = JUndefined\<rparr>)))
     = [(''templates'', JNull)]
   \<and> payload_fields (fst (deleteProductTemplate (IdNum 1)
        (mock (new_client None)
           \<lparr>code = Some 429, result = JUndefined,
            error = JObj [(''message'', JStr ''slow down'')], paging = JUndefined\<rparr>)))
     = [(''success'', JBool False)]
   \<and> (\<exists>kvs. fst (invoke (GetOrders None None ''failed'')
                 (mock (new_client None)
                    \<lparr>code = Some 429, result = JUndefined,
                     error = JObj [(''message'', JStr ''slow down'')], paging = JUndefined\<rparr>))
           = Inr (JObj kvs)
         \<and> map_of kvs ''error'' = Some (JObj [(''message'', JStr ''slow down'')]))"
  using failure_shape [where e = "\<lparr>code = Some 429, result = JUndefined,
            error = JObj [(''message'', JStr ''slow down'')], paging = JUndefined\<rparr>" and n = 429
          and c = "GetOrders None None ''failed''" and cl = "new_client None"
          and offset = None and limit = None and category_id = None
          and vid = "IdNum 5" and tid = "IdNum 1" and mid = 71
          and orientation = None and technique = None
          and sync_product = JNull and sync_variants = JNull and sync_variant = JNull
          and pid = "IdNum 1" and status = "''failed''" and newOrder = JNull
          and confirm = None and update_existing = None and mockup_task = JNull
          and oid = None and task_key = "''k''"]
  by auto

section \<open>Paging\<close>

text \<open>
  C3, as stated: with a code below 400 each paginated method returns the paging of the
  envelope. \<open>getProductTemplates\<close> reads \<open>items\<close> out of \<open>result\<close> first; when the
  envelope has no \<open>result\<close> this throws a \<open>TypeError\<close> and nothing is returned, paging
  included.
\<close>

theorem getProductTemplates_success_without_result_throws:
  "fst (getProductTemplates (Some 0) (Some 20)
          (mock (new_client None)
             \<lparr>code = Some 200, result = JUndefined, error = JUndefined,
              paging = JObj [(''offset'', JNum 0), (''limit'', JNum 20), (''total'', JNum 0)]\<rparr>))
   = Inl TypeError
   \<and> returned_field (fst (getProductTemplates (Some 0) (Some 20)
          (mock (new_client None)
             \<lparr>code = Some 200, result = JUndefined, error = JUndefined,
              paging = JObj [(''offset'', JNum 0), (''limit'', JNum 20), (''total'', JNum 0)]\<rparr>)))
        ''paging''
     = None"
  by (simp add: getProductTemplates_def fetch_json_def mock_def code_ge_400_def default_to_def)

text \<open>
  C3, amended. With a code below 400, \<open>getSyncProducts\<close> and \<open>getOrders\<close> return the
  paging of the envelope as it is, and so does \<open>getProductTemplates\<close> when \<open>result\<close> is
  neither \<open>null\<close> nor missing (otherwise it throws a \<open>TypeError\<close>). With a code of 400 or
  more all three return \<open>{offset, limit}\<close> made of the caller's arguments, 0 and 20
  standing in for an omitted one, whatever paging the envelope has.
\<close>

theorem paging_passthrough:
  "(code e = Some n \<and> n < 400 \<longrightarrow>
      returned_field (fst (getSyncProducts offset limit category_id (mock cl e))) ''paging''
        = Some (paging e)
    \<and> returned_field (fst (getOrders offset limit status (mock cl e))) ''paging''
        = Some (paging e)
    \<and> (if nullish (result e)
        then fst (getProductTemplates offset limit (mock cl e)) = Inl TypeError
        else returned_field (fst (getProductTemplates offset limit (mock cl e))) ''paging''
               = Some (paging e)))
   \<and> (code e = Some n \<and> 400 \<le> n \<longrightarrow>
      returned_field (fst (getSyncProducts offset limit category_id (mock cl e))) ''paging''
        = Some (JObj [(''offset'', JNum (default_to 0 offset)), (''limit'', JNum (default_to 20 limit))])
    \<and> returned_field (fst (getOrders offset limit status (mock cl e))) ''paging''
        = Some (JObj [(''offset'', JNum (default_to 0 offset)), (''limit'', JNum (default_to 20 limit))])
    \<and> returned_field (fst (getProductTemplates offset limit (mock cl e))) ''paging''
        = Some (JObj [(''offset'', JNum (default_to 0 offset)), (''limit'', JNum (default_to 20 limit))]))"
  by (simp add: getSyncProducts_def getOrders_def getProductTemplates_def fetch_json_def
        Let_def mock_def code_ge_400_def)

theorem paging_passthrough_witness:
  "returned_field (fst (getProductTemplates (Some 40) None
       (mock (new_client None)
          \<lparr>code = Some 200, result = JObj [(''items'', JArr [])], error = JUndefined,
           paging = JObj [(''offset'', JNum 40), (''limit'', JNum 20), (''total'', JNum 41)]\<rparr>)))
     ''paging''
   = Some (JObj [(''offset'', JNum 40), (''limit'', JNum 20), (''total'', JNum 41)])
   \<and> returned_field (fst (getOrders (Some 40) None ''draft''
       (mock (new_client None)
          \<lparr>code = Some 500, result = JUndefined, error = JStr ''down'',
           paging = JObj [(''offset'', JNum 7), (''limit'', JNum 7), (''total'', JNum 7)]\<rparr>)))
     ''paging''
   = Some (JObj [(''offset'', JNum 40), (''limit'', JNum 20)])"
  using paging_passthrough [where e = "\<lparr>code = Some 200, result = JObj [(''items'', JArr [])], error = JUndefined,
           paging = JObj [(''offset'', JNum 40), (''limit'', JNum 20), (''total'', JNum 41)]\<rparr>"
          and n = 200 and offset = "Some 40" and limit = None and category_id = None
          and cl = "new_client None" and status = "''draft''"]
        paging_passthrough [where e = "\<lparr>code = Some 500, result = JUndefined, error = JStr ''down'',
           paging = JObj [(''offset'', JNum 7), (''limit'', JNum 7), (''total'', JNum 7)]\<rparr>"
          and n = 500 and offset = "Some 40" and limit = None and category_id = None
          and cl = "new_client None" and status = "''draft''"]
  by (simp add: default_to_def)

section \<open>Request URLs\<close>

text \<open>
  The methods that write their identifier argument into the path write it as it is: a
  number as its numeral, a string unchanged, an \<open>@\<close> in front included.
\<close>

lemma id_path_verbatim:
  "url (issued (GetSyncProduct i) w) = origin (self w) @ ''/store/products/'' @ ident_to_string i"
  "url (issued (DeleteSyncProduct i) w) = origin (self w) @ ''/store/products/'' @ ident_to_string i"
  "url (issued (ModifySyncProduct i sp svs) w) = origin (self w) @ ''/store/products/'' @ ident_to_string i"
  "url (issued (GetSyncVariant i) w) = origin (self w) @ ''/store/variants/'' @ ident_to_string i"
  "url (issued (DeleteSyncVariant i) w) = origin (self w) @ ''/store/variants/'' @ ident_to_string i"
  "url (issued (ModifySyncVariant i sv) w) = origin (self w) @ ''/store/variants/'' @ ident_to_string i"
  "url (issued (GetProductTemplate i) w) = origin (self w) @ ''/product-templates/'' @ ident_to_string i"
  "url (issued (DeleteProductTemplate i) w) = origin (self w) @ ''/product-templates/'' @ ident_to_string i"
  "url (issued (CreateMockupTask k task) w) = origin (self w) @ ''/mockup-generator/create-task/'' @ num_to_string k"
  "ident_to_string (IdStr (CHR ''@'' # s)) = CHR ''@'' # s"
  by (simp_all add: issued_def method_defs fetch_json_def)

text \<open>
  C4. The path of every method with an identifier argument should carry the identifier
  as it is. \<open>createSyncVariant\<close> concatenates the object literal \<open>{id}\<close> instead of \<open>id\<close>:
  whatever the identifier, the path segment is the text \<open>[object Object]\<close>.
\<close>

theorem createSyncVariant_path_loses_id:
  "url (issued (CreateSyncVariant id' sync_variant) w)
     = origin (self w) @ ''/store/products/[object Object]/variants''
   \<and> map url (sent (snd (createSyncVariant (IdStr ''@ext-7'') sync_variant
                            (mock (new_client (Some ''tok'')) e))))
     = [''https://api.printful.com/store/products/[object Object]/variants'']
   \<and> map url (sent (snd (createSyncVariant (IdNum 42) sync_variant
                            (mock (new_client (Some ''tok'')) e))))
     = [''https://api.printful.com/store/products/[object Object]/variants'']"
  by (simp add: issued_def createSyncVariant_def fetch_json_def object_to_string_def mock_def
        new_client_def)

text \<open>
  C5. \<open>createOrder(order, true, false)\<close> sends one POST to the origin followed by
  \<open>/orders?confirm=true&update_existing=false\<close> whose body is \<open>JSON.stringify(order)\<close>;
  for any flags, the two values are written as \<open>true\<close> or \<open>false\<close>, \<open>false\<close> when omitted.
\<close>

theorem createOrder_request:
  "sent (snd (createOrder order (Some True) (Some False) w))
     = sent w @ [\<lparr>url = origin (self w) @ ''/orders?confirm=true&update_existing=false'',
                  http_method = Some ''POST'', req_headers = headers (self w),
                  body = stringify order\<rparr>]
   \<and> sent (snd (createOrder order confirm update_existing w))
     = sent w @ [\<lparr>url = origin (self w) @ ''/orders?confirm='' @ bool_to_string (default_to False confirm)
                          @ ''&update_existing='' @ bool_to_string (default_to False update_existing),
                  http_method = Some ''POST'', req_headers = headers (self w),
                  body = stringify order\<rparr>]"
  by (simp add: createOrder_def fetch_json_def Let_def default_to_def bool_to_string_def)

section \<open>Faults of the transport\<close>

text \<open>
  C6. For every method: when \<open>fetch\<close> rejects on the request the method sends, the call
  throws that transport fault; when the body is not JSON, the call throws the parse
  fault; and a call returns an object only if the remote answered with an envelope. No
  fault of the transport becomes a returned \<open>(payload, error)\<close> object.
\<close>

theorem transport_faults_propagate:
  "(remote w (issued c w) = NetworkError \<longrightarrow> fst (invoke c w) = Inl TransportFault)
   \<and> (remote w (issued c w) = MalformedBody \<longrightarrow> fst (invoke c w) = Inl JsonParseFault)
   \<and> ((\<exists>v. fst (invoke c w) = Inr v) \<longrightarrow> (\<exists>e. remote w (issued c w) = Body e))"
  by (cases c)
     (simp_all add: issued_def method_defs fetch_json_def Let_def split: reply.splits)

theorem transport_faults_propagate_witness:
  "fst (invoke (GetSyncProducts None None None)
          \<lparr>self = new_client None, remote = (\<lambda>req. NetworkError), sent = []\<rparr>)
     = Inl TransportFault
   \<and> fst (invoke (CreateMockupTask 71 JNull)
          \<lparr>self = new_client None, remote = (\<lambda>req. MalformedBody), sent = []\<rparr>)
     = Inl JsonParseFault"
  using transport_faults_propagate [where w = "\<lparr>self = new_client None, remote = (\<lambda>req. NetworkError), sent = []\<rparr>"
          and c = "GetSyncProducts None None None"]
        transport_faults_propagate [where w = "\<lparr>self = new_client None, remote = (\<lambda>req. MalformedBody), sent = []\<rparr>"
          and c = "CreateMockupTask 71 JNull"]
  by simp

section \<open>The authorization header\<close>

text \<open>
  C7. On a client constructed with the token \<open>auth\<close>, after any sequence of calls the
  origin and the headers are those the constructor set, each call has sent one request,
  and every request sent carries the one header \<open>Authorization\<close> with the value \<open>Bearer\<close>,
  a space and the token; a missing or empty token gives \<open>Bearer\<close> and a space alone.
\<close>

theorem authorization_header_invariant:
  "self (invoke_all cs \<lparr>self = new_client auth, remote = r, sent = []\<rparr>) = new_client auth
   \<and> length (sent (invoke_all cs \<lparr>self = new_client auth, remote = r, sent = []\<rparr>)) = length cs
   \<and> (\<forall>req \<in> set (sent (invoke_all cs \<lparr>self = new_client auth, remote = r, sent = []\<rparr>)).
         req_headers req
           = [(''Authorization'', ''Bearer '' @ (case auth of None \<Rightarrow> [] | Some t \<Rightarrow> t))])
   \<and> headers (new_client None) = [(''Authorization'', ''Bearer '')]
   \<and> headers (new_client (Some [])) = [(''Authorization'', ''Bearer '')]
   \<and> origin (new_client auth) = ''https://api.printful.com''"
proof -
  let ?w = "\<lparr>self = new_client auth, remote = r, sent = []\<rparr>"
  have "list_all (\<lambda>req. req_headers req = headers (self ?w)) (sent ?w)"
    by simp
  then have "list_all (\<lambda>req. req_headers req = headers (self ?w)) (sent (invoke_all cs ?w))"
    by (rule invoke_all_headers)
  then have "\<forall>req \<in> set (sent (invoke_all cs ?w)).
      req_headers req = [(''Authorization'', ''Bearer '' @ (case auth of None \<Rightarrow> [] | Some t \<Rightarrow> t))]"
    by (simp add: list_all_iff new_client_def)
  moreover have "self (invoke_all cs ?w) = new_client auth"
    by (simp add: invoke_all_keeps_self)
  moreover have "length (sent (invoke_all cs ?w)) = length cs"
    by (simp add: invoke_all_length)
  ultimately show ?thesis
    by (simp add: new_client_def)
qed

theorem authorization_header_invariant_witness:
  "map req_headers
     (sent (invoke_all [GetSyncVariant (IdNum 5), CreateOrder JNull None None]
              \<lparr>self = new_client (Some ''tok''), remote = (\<lambda>req. NetworkError), sent = []\<rparr>))
   = [[(''Authorization'', ''Bearer tok'')], [(''Authorization'', ''Bearer tok'')]]
   \<and> self (invoke_all [GetSyncVariant (IdNum 5), CreateOrder JNull None None]
              \<lparr>self = new_client (Some ''tok''), remote = (\<lambda>req. NetworkError), sent = []\<rparr>)
     = new_client (Some ''tok'')"
  using authorization_header_invariant [where cs = "[GetSyncVariant (IdNum 5), CreateOrder JNull None None]"
          and auth = "Some ''tok''" and r = "\<lambda>req. NetworkError"]
  by (simp add: getSyncVariant_def createOrder_def fetch_json_def new_client_def)

section \<open>Reading twice\<close>

text \<open>
  C8. A read, sent again with the same arguments to a remote that answers as before,
  gives the same result: the second of two calls in a row returns what the first did,
  and so does the call in any state of the same instance and the same remote.
\<close>

theorem read_twice_same_result:
  "is_read c \<longrightarrow>
     fst (invoke c (snd (invoke c w))) = fst (invoke c w)
     \<and> (self w' = self w \<and> remote w' = remote w \<longrightarrow> fst (invoke c w') = fst (invoke c w))"
  by (cases c) (simp_all add: method_defs fetch_json_def Let_def)

theorem read_twice_same_result_witness:
  "is_read (GetSyncProduct (IdNum 999))
   \<and> fst (invoke (GetSyncProduct (IdNum 999))
        (snd (invoke (GetSyncProduct (IdNum 999))
           (mock (new_client None)
              \<lparr>code = Some 404, result = JUndefined,
               error = JObj [(''message'', JStr ''not found'')], paging = JUndefined\<rparr>))))
     = Inr (JObj [(''sync_product'', JObj []), (''sync_variants'', JArr []),
                  (''error'', JObj [(''message'', JStr ''not found'')])])"
  using read_twice_same_result [where c = "GetSyncProduct (IdNum 999)"
          and w = "mock (new_client None)
              \<lparr>code = Some 404, result = JUndefined,
               error = JObj [(''message'', JStr ''not found'')], paging = JUndefined\<rparr>"]
  by (simp add: getSyncProduct_def fetch_json_def mock_def code_ge_400_def)

section \<open>Optional query parameters\<close>

text \<open>
  C9. An optional query parameter that is \<open>undefined\<close> or empty is not written at all:
  without a category the URL of \<open>getSyncProducts\<close> ends after the limit; without an
  orientation the query of \<open>getProductVariantPrintFiles\<close> and of \<open>getLayoutTemplates\<close> is
  the one built from the technique alone, without a technique the one built from the
  orientation alone, and without both it is empty.
\<close>

theorem optional_query_parameters_omitted:
  "((category_id = None \<or> category_id = Some []) \<longrightarrow>
      url (issued (GetSyncProducts offset limit category_id) w)
        = origin (self w) @ ''/store/products?offset='' @ num_to_string (default_to 0 offset)
            @ ''&limit='' @ num_to_string (default_to 20 limit))
   \<and> ((orientation = None \<or> orientation = Some []) \<longrightarrow>
      url (issued (GetProductVariantPrintFiles pid orientation technique) w)
        = origin (self w) @ ''/mockup-generator/printfiles/'' @ opt_num_to_string pid @ ''?''
            @ params_to_string (append_if_truthy ''technique'' technique [])
      \<and> url (issued (GetLayoutTemplates tid orientation technique) w)
        = origin (self w) @ ''/mockup-generator/templates/'' @ num_to_string tid @ ''?''
            @ params_to_string (append_if_truthy ''technique'' technique []))
   \<and> ((technique = None \<or> technique = Some []) \<longrightarrow>
      url (issued (GetProductVariantPrintFiles pid orientation technique) w)
        = origin (self w) @ ''/mockup-generator/printfiles/'' @ opt_num_to_string pid @ ''?''
            @ params_to_string (append_if_truthy ''orientation'' orientation [])
      \<and> url (issued (GetLayoutTemplates tid orientation technique) w)
        = origin (self w) @ ''/mockup-generator/templates/'' @ num_to_string tid @ ''?''
            @ params_to_string (append_if_truthy ''orientation'' orientation []))
   \<and> ((orientation = None \<or> orientation = Some []) \<and> (technique = None \<or> technique = Some []) \<longrightarrow>
      url (issued (GetProductVariantPrintFiles pid orientation technique) w)
        = origin (self w) @ ''/mockup-generator/printfiles/'' @ opt_num_to_string pid @ ''?''
      \<and> url (issued (GetLayoutTemplates tid orientation technique) w)
        = origin (self w) @ ''/mockup-generator/templates/'' @ num_to_string tid @ ''?'')"
  by (auto simp add: issued_def getSyncProducts_def getProductVariantPrintFiles_def
        getLayoutTemplates_def fetch_json_def Let_def default_to_def params_to_string_def)

theorem optional_query_parameters_omitted_witness:
  "url (issued (GetSyncProducts (Some 0) (Some 20) (Some [])) (\<lparr>self = new_client None, remote = (\<lambda>req. NetworkError), sent = []\<rparr>))
     = ''https://api.printful.com/store/products?offset=0&limit=20''
   \<and> url (issued (GetProductVariantPrintFiles (Some 71) None (Some ''DTG'')) (\<lparr>self = new_client None, remote = (\<lambda>req. NetworkError), sent = []\<rparr>))
     = ''https://api.printful.com/mockup-generator/printfiles/71?technique=DTG''
   \<and> url (issued (GetLayoutTemplates 71 (Some []) None) (\<lparr>self = new_client None, remote = (\<lambda>req. NetworkError), sent = []\<rparr>))
     = ''https://api.printful.com/mockup-generator/templates/71?''"
  using optional_query_parameters_omitted [where category_id = "Some []" and offset = "Some 0"
          and limit = "Some 20" and w = "\<lparr>self = new_client None, remote = (\<lambda>req. NetworkError), sent = []\<rparr>" and orientation = None
          and pid = "Some 71" and technique = "Some ''DTG''" and tid = 71]
        optional_query_parameters_omitted [where category_id = None and offset = None
          and limit = None and w = "\<lparr>self = new_client None, remote = (\<lambda>req. NetworkError), sent = []\<rparr>" and orientation = "Some []"
          and pid = None and technique = None and tid = 71]
  by (simp add: new_client_def default_to_def num_to_string_def dec_digits.simps
        digit_char_def params_to_string_def form_encode_def form_encode_char_def
        form_unreserved_def)

section \<open>A missing product identifier\<close>

text \<open>
  C10. \<open>getProductVariantPrintFiles\<close> called without the product identifier still sends
  its request: to the origin followed by \<open>/mockup-generator/printfiles/undefined?\<close> and
  the query, and the call returns an object when the remote answers with an envelope.
\<close>

theorem printfiles_without_id:
  "sent (snd (getProductVariantPrintFiles None orientation technique w))
     = sent w @ [\<lparr>url = origin (self w) @ ''/mockup-generator/printfiles/undefined?''
                          @ params_to_string (append_if_truthy ''technique'' technique
                                                (append_if_truthy ''orientation'' orientation [])),
                  http_method = None, req_headers = headers (self w), body = None\<rparr>]
   \<and> (\<exists>v. fst (getProductVariantPrintFiles None orientation technique (mock cl e)) = Inr v)
   \<and> map url (sent (snd (getProductVariantPrintFiles None None None (mock (new_client None) e))))
     = [''https://api.printful.com/mockup-generator/printfiles/undefined?'']"
  by (simp add: getProductVariantPrintFiles_def fetch_json_def Let_def mock_def new_client_def
        params_to_string_def)

end
